theory Spec2Isabelle
  imports Main "HOL-Library.Multiset"
begin

section \<open>The todo model (package models)\<close>

text \<open>
  An instant of \<^verbatim>\<open>time.Time\<close> is a number of ticks since Go's zero time, so that
  \<open>0\<close> is the zero value (\<^verbatim>\<open>IsZero\<close>). \<^verbatim>\<open>gorm.DeletedAt\<close> is a nullable time:
  \<open>None\<close> is SQL NULL. \<^verbatim>\<open>ID uint\<close> is a natural number; the bounds that the JSON decoder
  and the SQLite driver put on it are written out where they are checked.
\<close>

type_synonym time = nat

record Todo =
  ID :: nat
  CreatedAt :: time
  UpdatedAt :: time
  DeletedAt :: "time option"
  Title :: string
  Description :: string
  Completed :: bool

text \<open>The zero value of the struct, as declared by \<^verbatim>\<open>var todo models.Todo\<close>.\<close>

definition zero_Todo :: Todo where
  "zero_Todo = \<lparr>ID = 0, CreatedAt = 0, UpdatedAt = 0, DeletedAt = None,
     Title = [], Description = [], Completed = False\<rparr>"

subsection \<open>JSON\<close>

datatype json =
    JNull
  | JBool bool
  | JNum nat
  | JTime time
  | JStr string
  | JArr "json list"
  | JObj "(string \<times> json) list"

text \<open>
  Encoding follows the struct tags in declaration order; \<^verbatim>\<open>DeletedAt\<close> carries
  \<^verbatim>\<open>json:"-"\<close> and is skipped.
\<close>

definition MarshalTodo :: "Todo \<Rightarrow> json" where
  "MarshalTodo t = JObj
     [(''id'', JNum (ID t)),
      (''created_at'', JTime (CreatedAt t)),
      (''updated_at'', JTime (UpdatedAt t)),
      (''title'', JStr (Title t)),
      (''description'', JStr (Description t)),
      (''completed'', JBool (Completed t))]"

text \<open>A \<^verbatim>\<open>[]models.Todo\<close>: \<open>None\<close> is the nil slice, which encodes as \<^verbatim>\<open>null\<close>.\<close>

definition MarshalTodos :: "Todo list option \<Rightarrow> json" where
  "MarshalTodos ts = (case ts of None \<Rightarrow> JNull | Some xs \<Rightarrow> JArr (map MarshalTodo xs))"

text \<open>The member names of a JSON object, in the order in which they are written.\<close>

definition member_names :: "json \<Rightarrow> string list" where
  "member_names j = (case j of JObj kvs \<Rightarrow> map fst kvs | _ \<Rightarrow> [])"

text \<open>
  A request body is either rejected by the decoder (with the decoder's message) or a JSON
  object, of which only the members named by the struct tags are read. A member that is
  absent (or \<^verbatim>\<open>null\<close>) leaves the field at its zero value. There is no member for
  \<^verbatim>\<open>DeletedAt\<close>.
\<close>

record TodoJSON =
  j_id :: "nat option"
  j_created_at :: "time option"
  j_updated_at :: "time option"
  j_title :: "string option"
  j_description :: "string option"
  j_completed :: "bool option"

datatype request_body = Malformed string | Object TodoJSON

definition or_zero :: "'a \<Rightarrow> 'a option \<Rightarrow> 'a" where
  "or_zero z v = (case v of None \<Rightarrow> z | Some x \<Rightarrow> x)"

text \<open>\<^verbatim>\<open>ctx.ReadJSON(&todo)\<close> on a zero struct. A number that does not fit \<^verbatim>\<open>uint\<close> is a decoding error.\<close>

definition ReadJSON :: "request_body \<Rightarrow> string + Todo" where
  "ReadJSON rb =
     (case rb of
        Malformed msg \<Rightarrow> Inl msg
      | Object j \<Rightarrow>
          if 2 ^ 64 \<le> or_zero 0 (j_id j)
          then Inl ''json: cannot unmarshal number into Go struct field Todo.id of type uint''
          else Inr \<lparr>ID = or_zero 0 (j_id j),
                    CreatedAt = or_zero 0 (j_created_at j),
                    UpdatedAt = or_zero 0 (j_updated_at j),
                    DeletedAt = None,
                    Title = or_zero [] (j_title j),
                    Description = or_zero [] (j_description j),
                    Completed = or_zero False (j_completed j)\<rparr>)"

section \<open>The path parameter\<close>

text \<open>
  The routes bind \<^verbatim>\<open>{id}\<close> to any non-empty path segment, and the handlers hand the
  string of \<^verbatim>\<open>ctx.Params().Get("id")\<close> to the ORM as it is. The ORM takes a string
  condition for a primary key only when \<^verbatim>\<open>strconv.Atoi\<close> accepts it: an optional sign and
  decimal digits, within the range of \<^verbatim>\<open>int\<close>. Any other string is the text of the
  condition itself, and the empty string is no condition.
\<close>

definition digit :: "char \<Rightarrow> nat option" where
  "digit c = map_of (zip ''0123456789'' [0, 1, 2, 3, 4, 5, 6, 7, 8, 9]) c"

fun decimal :: "nat \<Rightarrow> string \<Rightarrow> nat option" where
  "decimal acc [] = Some acc"
| "decimal acc (c # cs) =
     (case digit c of None \<Rightarrow> None | Some d \<Rightarrow> decimal (10 * acc + d) cs)"

text \<open>The value of a non-empty string of decimal digits.\<close>

definition digits :: "string \<Rightarrow> nat option" where
  "digits s = (if s = [] then None else decimal 0 s)"

definition Atoi :: "string \<Rightarrow> int option" where
  "Atoi s =
     (case s of
        [] \<Rightarrow> None
      | c # cs \<Rightarrow>
          if c = CHR ''-''
          then (case digits cs of
                  None \<Rightarrow> None
                | Some n \<Rightarrow> if n \<le> 2 ^ 63 then Some (- int n) else None)
          else if c = CHR ''+''
          then (case digits cs of
                  None \<Rightarrow> None
                | Some n \<Rightarrow> if n < 2 ^ 63 then Some (int n) else None)
          else (case digits s of
                  None \<Rightarrow> None
                | Some n \<Rightarrow> if n < 2 ^ 63 then Some (int n) else None))"

datatype condition = PrimaryKey int | Expr string | NoCondition

definition BuildCondition :: "string \<Rightarrow> condition" where
  "BuildCondition s =
     (case Atoi s of
        Some k \<Rightarrow> PrimaryKey k
      | None \<Rightarrow> if s = [] then NoCondition else Expr s)"

section \<open>The database handle\<close>

text \<open>
  The handlers reach the store only through five calls of the ORM on the global handle
  \<^verbatim>\<open>DB\<close>. The library is not part of the repository; the definitions below are its
  behaviour on this one schema (an auto-increment integer primary key, automatic creation and
  update times, a soft-delete column). Every call takes a flag saying whether the storage
  layer fails at this call.

  The store is the table, in insertion order, and the largest key ever inserted
  (SQLite's sequence for an auto-increment table).
\<close>

datatype gorm_error = ErrRecordNotFound | ErrMissingWhereClause | ErrStorage

record gorm_result =
  Error :: "gorm_error option"
  RowsAffected :: nat

record DB =
  table :: "Todo list"
  sequence :: nat

definition failed :: "gorm_error \<Rightarrow> gorm_result" where
  "failed err = \<lparr>Error = Some err, RowsAffected = 0\<rparr>"

definition ok :: "nat \<Rightarrow> gorm_result" where
  "ok n = \<lparr>Error = None, RowsAffected = n\<rparr>"

definition max_rowid :: nat where
  "max_rowid = 2 ^ 63 - 1"

definition live :: "Todo \<Rightarrow> bool" where
  "live r \<longleftrightarrow> DeletedAt r = None"

text \<open>
  A condition text that is a string of digits is a numeric literal to the SQL engine, true of
  every row when its value is not zero. What the engine makes of any other condition text is
  not computed here. It is a parameter of the model: the result of the query or statement that
  carries the text, and the store that is left, since a text can hold further statements.
\<close>

record engine =
  query_raw :: "string \<Rightarrow> Todo \<Rightarrow> DB \<Rightarrow> gorm_result \<times> Todo \<times> DB"
  exec_raw :: "string \<Rightarrow> time \<Rightarrow> DB \<Rightarrow> gorm_result \<times> DB"

text \<open>
  \<^verbatim>\<open>DB.Create(&value)\<close>: zero creation and update times are set to the current time; a
  zero key is replaced by the next key of the sequence (one more than the largest key that the
  table holds or has ever been given), a non-zero key is inserted as it is.
  The insert fails on a key in use and on a key beyond the largest row id.
\<close>

definition created :: "time \<Rightarrow> Todo \<Rightarrow> Todo" where
  "created curTime val =
     val\<lparr>CreatedAt := (if CreatedAt val = 0 then curTime else CreatedAt val),
         UpdatedAt := (if UpdatedAt val = 0 then curTime else UpdatedAt val)\<rparr>"

definition next_key :: "DB \<Rightarrow> nat" where
  "next_key db = Suc (fold max (map ID (table db)) (sequence db))"

definition DB_Create :: "DB \<Rightarrow> time \<Rightarrow> bool \<Rightarrow> Todo \<Rightarrow> gorm_result \<times> Todo \<times> DB" where
  "DB_Create db curTime fails val =
     (let v = created curTime val;
          key = (if ID v = 0 then next_key db else ID v);
          row = v\<lparr>ID := key\<rparr>
      in if fails \<or> max_rowid < key \<or> key \<in> set (map ID (table db))
         then (failed ErrStorage, v, db)
         else (ok 1, row, \<lparr>table = table db @ [row], sequence = max (sequence db) key\<rparr>))"

text \<open>
  \<^verbatim>\<open>DB.Find(&todos)\<close>: the rows that are not soft-deleted, in key order. On success the
  destination is a non-nil slice even when no row matches.
\<close>

definition DB_Find :: "DB \<Rightarrow> bool \<Rightarrow> Todo list option \<Rightarrow> gorm_result \<times> Todo list option" where
  "DB_Find db fails dest =
     (if fails then (failed ErrStorage, dest)
      else (ok (length (filter live (table db))), Some (sort_key ID (filter live (table db)))))"

text \<open>
  \<^verbatim>\<open>DB.First(&dest, id)\<close>: the first row in key order that is not soft-deleted and meets
  the condition made of the string. A non-zero key already in the destination struct is a
  further condition of the query.
\<close>

definition first_row :: "(Todo \<Rightarrow> bool) \<Rightarrow> Todo \<Rightarrow> DB \<Rightarrow> Todo option" where
  "first_row cond dest db =
     find (\<lambda>r. cond r \<and> (ID dest = 0 \<or> ID r = ID dest)) (sort_key ID (filter live (table db)))"

definition select_first :: "(Todo \<Rightarrow> bool) \<Rightarrow> Todo \<Rightarrow> DB \<Rightarrow> gorm_result \<times> Todo \<times> DB" where
  "select_first cond dest db =
     (case first_row cond dest db of
        None \<Rightarrow> (failed ErrRecordNotFound, dest, db)
      | Some r \<Rightarrow> (ok 1, r, db))"

definition DB_First :: "engine \<Rightarrow> DB \<Rightarrow> bool \<Rightarrow> Todo \<Rightarrow> string \<Rightarrow> gorm_result \<times> Todo \<times> DB" where
  "DB_First eng db fails dest s =
     (if fails then (failed ErrStorage, dest, db)
      else case BuildCondition s of
             PrimaryKey k \<Rightarrow> select_first (\<lambda>r. int (ID r) = k) dest db
           | NoCondition \<Rightarrow> select_first (\<lambda>r. True) dest db
           | Expr sql \<Rightarrow>
               (case digits sql of
                  Some n \<Rightarrow> select_first (\<lambda>r. n \<noteq> 0) dest db
                | None \<Rightarrow> query_raw eng sql dest db))"

text \<open>
  \<^verbatim>\<open>DB.Model(&model).Updates(values)\<close> with a struct value: only the non-zero fields of
  \<open>values\<close> are written, and the update time is always set to the current time. The same
  assignments are made to the model struct in memory, before the statement runs. The rows
  written are the live rows with the model's key. A statement that writes the key fails when
  it would leave two rows with one key or a key beyond the largest row id.
\<close>

definition assign :: "time \<Rightarrow> Todo \<Rightarrow> Todo \<Rightarrow> Todo" where
  "assign curTime vals r =
     r\<lparr>ID := (if ID vals = 0 then ID r else ID vals),
       CreatedAt := (if CreatedAt vals = 0 then CreatedAt r else CreatedAt vals),
       UpdatedAt := curTime,
       DeletedAt := (if DeletedAt vals = None then DeletedAt r else DeletedAt vals),
       Title := (if Title vals = [] then Title r else Title vals),
       Description := (if Description vals = [] then Description r else Description vals),
       Completed := (if Completed vals then True else Completed r)\<rparr>"

definition DB_Updates :: "DB \<Rightarrow> time \<Rightarrow> bool \<Rightarrow> Todo \<Rightarrow> Todo \<Rightarrow> gorm_result \<times> Todo \<times> DB" where
  "DB_Updates db curTime fails model vals =
     (let hit = (\<lambda>r. live r \<and> ID r = ID model);
          rows = map (\<lambda>r. if hit r then assign curTime vals r else r) (table db)
      in if ID model = 0 then (failed ErrMissingWhereClause, assign curTime vals model, db)
         else if fails \<or> (ID vals \<noteq> 0 \<and> (max_rowid < ID vals \<or> \<not> distinct (map ID rows)))
         then (failed ErrStorage, assign curTime vals model, db)
         else (ok (length (filter hit (table db))), assign curTime vals model, db\<lparr>table := rows\<rparr>))"

text \<open>
  \<^verbatim>\<open>DB.Delete(&models.Todo{}, id)\<close>: a soft delete; the live rows that meet the condition
  made of the string get the current time as deletion time, and stay in the table. Without a
  condition the ORM refuses the statement.
\<close>

definition soft_delete :: "(Todo \<Rightarrow> bool) \<Rightarrow> time \<Rightarrow> DB \<Rightarrow> gorm_result \<times> DB" where
  "soft_delete cond curTime db =
     (ok (length (filter (\<lambda>r. live r \<and> cond r) (table db))),
      db\<lparr>table := map (\<lambda>r. if live r \<and> cond r then r\<lparr>DeletedAt := Some curTime\<rparr> else r)
                     (table db)\<rparr>)"

definition DB_Delete :: "engine \<Rightarrow> DB \<Rightarrow> time \<Rightarrow> bool \<Rightarrow> string \<Rightarrow> gorm_result \<times> DB" where
  "DB_Delete eng db curTime fails s =
     (if fails then (failed ErrStorage, db)
      else case BuildCondition s of
             PrimaryKey k \<Rightarrow> soft_delete (\<lambda>r. int (ID r) = k) curTime db
           | NoCondition \<Rightarrow> (failed ErrMissingWhereClause, db)
           | Expr sql \<Rightarrow>
               (case digits sql of
                  Some n \<Rightarrow> soft_delete (\<lambda>r. n \<noteq> 0) curTime db
                | None \<Rightarrow> exec_raw eng sql curTime db))"

section \<open>The handlers\<close>

text \<open>
  A response is a status code and a body (\<open>None\<close>: nothing written). What a request finds
  outside the store is its environment: the clock, and whether the first, second and third
  database call of the request fail in the storage layer.
\<close>

record response =
  status :: nat
  body :: "json option"

record env =
  now :: time
  err1 :: bool
  err2 :: bool
  err3 :: bool

definition iris_Map :: "string \<Rightarrow> json" where
  "iris_Map msg = JObj [(''error'', JStr msg)]"

definition StopWithJSON :: "nat \<Rightarrow> json \<Rightarrow> response" where
  "StopWithJSON code v = \<lparr>status = code, body = Some v\<rparr>"

definition CreateTodo :: "DB \<Rightarrow> env \<Rightarrow> request_body \<Rightarrow> response \<times> DB" where
  "CreateTodo db e rb =
     (case ReadJSON rb of
        Inl err \<Rightarrow> (StopWithJSON 400 (iris_Map (''Invalid input data: '' @ err)), db)
      | Inr newTodo \<Rightarrow>
          (case DB_Create db (now e) (err1 e) newTodo of
             (result, newTodo', db') \<Rightarrow>
               if Error result \<noteq> None
               then (StopWithJSON 500 (iris_Map ''Failed to create Todo item in database.''), db')
               else (\<lparr>status = 201, body = Some (MarshalTodo newTodo')\<rparr>, db')))"

definition GetTodos :: "DB \<Rightarrow> env \<Rightarrow> response \<times> DB" where
  "GetTodos db e =
     (case DB_Find db (err1 e) None of
        (result, todos) \<Rightarrow>
          if Error result \<noteq> None
          then (StopWithJSON 500 (iris_Map ''Failed to retrieve Todos from database.''), db)
          else (\<lparr>status = 200, body = Some (MarshalTodos todos)\<rparr>, db))"

definition GetTodoByID :: "engine \<Rightarrow> DB \<Rightarrow> env \<Rightarrow> string \<Rightarrow> response \<times> DB" where
  "GetTodoByID eng db e id_param =
     (case DB_First eng db (err1 e) zero_Todo id_param of
        (result, todo, db') \<Rightarrow>
          if Error result \<noteq> None
          then (if Error result = Some ErrRecordNotFound
                then (StopWithJSON 404 (iris_Map ''Todo item not found.''), db')
                else (StopWithJSON 500 (iris_Map ''Failed to retrieve Todo item from database.''), db'))
          else (\<lparr>status = 200, body = Some (MarshalTodo todo)\<rparr>, db'))"

definition UpdateTodo :: "engine \<Rightarrow> DB \<Rightarrow> env \<Rightarrow> string \<Rightarrow> request_body \<Rightarrow> response \<times> DB" where
  "UpdateTodo eng db e id_param rb =
     (case DB_First eng db (err1 e) zero_Todo id_param of
        (result, existingTodo, db0) \<Rightarrow>
          if Error result \<noteq> None
          then (if Error result = Some ErrRecordNotFound
                then (StopWithJSON 404 (iris_Map ''Todo item not found.''), db0)
                else (StopWithJSON 500 (iris_Map ''Database error while fetching item.''), db0))
          else (case ReadJSON rb of
                  Inl err \<Rightarrow> (StopWithJSON 400 (iris_Map ''Invalid input data.''), db0)
                | Inr updatedTodo \<Rightarrow>
                    (case DB_Updates db0 (now e) (err2 e) existingTodo updatedTodo of
                       (_, existingTodo1, db1) \<Rightarrow>
                         (case DB_First eng db1 (err3 e) existingTodo1 id_param of
                            (_, existingTodo2, db2) \<Rightarrow>
                              (\<lparr>status = 200, body = Some (MarshalTodo existingTodo2)\<rparr>, db2)))))"

definition DeleteTodo :: "engine \<Rightarrow> DB \<Rightarrow> env \<Rightarrow> string \<Rightarrow> response \<times> DB" where
  "DeleteTodo eng db e id_param =
     (case DB_Delete eng db (now e) (err1 e) id_param of
        (result, db') \<Rightarrow>
          if Error result \<noteq> None
          then (StopWithJSON 500 (iris_Map ''Failed to delete Todo item from database.''), db')
          else if RowsAffected result = 0
          then (StopWithJSON 404 (iris_Map ''Todo item not found.''), db')
          else (\<lparr>status = 204, body = None\<rparr>, db'))"

text \<open>The store after \<^verbatim>\<open>InitDatabase\<close> has created the table.\<close>

definition init_DB :: DB where
  "init_DB = \<lparr>table = [], sequence = 0\<rparr>"

text \<open>
  A path parameter is plain when the model computes its condition itself: a key, a numeric
  literal, or nothing. The stores considered are those that meet the primary key constraint of
  the table: keys are distinct, not zero and not beyond the largest row id.
\<close>

definition plain :: "string \<Rightarrow> bool" where
  "plain s \<longleftrightarrow> (case BuildCondition s of Expr sql \<Rightarrow> digits sql \<noteq> None | _ \<Rightarrow> True)"

definition keys_ok :: "DB \<Rightarrow> bool" where
  "keys_ok db \<longleftrightarrow>
     distinct (map ID (table db)) \<and> list_all (\<lambda>r. ID r \<noteq> 0 \<and> ID r \<le> max_rowid) (table db)"

section \<open>The merge of an update, by the members of its body\<close>

text \<open>
  What an update request leaves of a row, in terms of the members of its body: a member that
  is absent, or present with the zero value of its type, leaves the field as it is.
\<close>

definition merged :: "time \<Rightarrow> TodoJSON \<Rightarrow> Todo \<Rightarrow> Todo" where
  "merged curTime j r =
     r\<lparr>CreatedAt := (case j_created_at j of
                         None \<Rightarrow> CreatedAt r
                       | Some c \<Rightarrow> if c = 0 then CreatedAt r else c),
       UpdatedAt := curTime,
       Title := (case j_title j of
                   None \<Rightarrow> Title r
                 | Some x \<Rightarrow> if x = [] then Title r else x),
       Description := (case j_description j of
                         None \<Rightarrow> Description r
                       | Some x \<Rightarrow> if x = [] then Description r else x),
       Completed := (case j_completed j of
                       None \<Rightarrow> Completed r
                     | Some b \<Rightarrow> if b then True else Completed r)\<rparr>"

section \<open>Example requests and stores\<close>

definition quiet :: "time \<Rightarrow> env" where
  "quiet t = \<lparr>now = t, err1 = False, err2 = False, err3 = False\<rparr>"

definition no_members :: TodoJSON where
  "no_members = \<lparr>j_id = None, j_created_at = None, j_updated_at = None, j_title = None,
     j_description = None, j_completed = None\<rparr>"

definition milk :: Todo where
  "milk = \<lparr>ID = 1, CreatedAt = 10, UpdatedAt = 10, DeletedAt = None, Title = ''Buy milk'',
     Description = [], Completed = True\<rparr>"

definition bread :: Todo where
  "bread = \<lparr>ID = 0, CreatedAt = 0, UpdatedAt = 0, DeletedAt = None, Title = ''Buy bread'',
     Description = [], Completed = False\<rparr>"

definition milk_db :: DB where
  "milk_db = snd (CreateTodo init_DB (quiet 10)
     (Object (no_members\<lparr>j_title := Some ''Buy milk'', j_completed := Some True\<rparr>)))"

text \<open>An engine that rejects every condition text it is given.\<close>

definition no_sql :: engine where
  "no_sql = \<lparr>query_raw = (\<lambda>sql dest db. (failed ErrStorage, dest, db)),
             exec_raw = (\<lambda>sql t db. (failed ErrStorage, db))\<rparr>"

definition milk_gone :: DB where
  "milk_gone = snd (DeleteTodo no_sql milk_db (quiet 20) ''1'')"

definition seven :: TodoJSON where
  "seven = no_members\<lparr>j_id := Some 7\<rparr>"

definition seven_row :: Todo where
  "seven_row = \<lparr>ID = 7, CreatedAt = 10, UpdatedAt = 10, DeletedAt = None,
     Title = [], Description = [], Completed = False\<rparr>"

definition eggs :: Todo where
  "eggs = \<lparr>ID = 2, CreatedAt = 12, UpdatedAt = 12, DeletedAt = None, Title = ''Buy eggs'',
     Description = [], Completed = False\<rparr>"

definition two_db :: DB where
  "two_db = \<lparr>table = [milk, eggs], sequence = 2\<rparr>"

text \<open>
  An engine for one condition text with two statements. The SQLite driver runs the statements
  of a text one after the other and answers with the rows of the last: the query of the
  lookup, cut short at the semicolon, and then a statement that empties the table and returns
  no row. Every other text is rejected.
\<close>

definition two_statements :: engine where
  "two_statements =
     \<lparr>query_raw = (\<lambda>sql dest db.
         if sql = ''1; DELETE FROM todos --''
         then (failed ErrRecordNotFound, dest, db\<lparr>table := []\<rparr>)
         else (failed ErrStorage, dest, db)),
      exec_raw = (\<lambda>sql t db. (failed ErrStorage, db))\<rparr>"

definition future_db :: DB where
  "future_db = snd (CreateTodo init_DB (quiet 10) (Object (no_members\<lparr>j_updated_at := Some 50\<rparr>)))"

text \<open>
  An engine for one condition text that ends in a comment. The comment hides the rest of the
  query, with it the condition on the deletion time, so the query selects every row of the
  table and the lookup takes the first in key order. Every other text is rejected.
\<close>

definition comment_text :: engine where
  "comment_text =
     \<lparr>query_raw = (\<lambda>sql dest db.
         if sql = ''1 --''
         then (case sort_key ID (table db) of
                 [] \<Rightarrow> (failed ErrRecordNotFound, dest, db)
               | r # rs \<Rightarrow> (ok 1, r, db))
         else (failed ErrStorage, dest, db)),
      exec_raw = (\<lambda>sql t db. (failed ErrStorage, db))\<rparr>"

section \<open>Properties\<close>

lemmas model_defs = CreateTodo_def GetTodos_def GetTodoByID_def UpdateTodo_def DeleteTodo_def
  ReadJSON_def DB_Create_def created_def next_key_def DB_Find_def DB_First_def DB_Updates_def
  DB_Delete_def select_first_def first_row_def soft_delete_def BuildCondition_def Atoi_def
  digits_def digit_def assign_def live_def or_zero_def max_rowid_def failed_def ok_def
  zero_Todo_def MarshalTodo_def MarshalTodos_def StopWithJSON_def iris_Map_def init_DB_def
  quiet_def no_members_def no_sql_def Let_def

lemma milk_db_eq: "milk_db = \<lparr>table = [milk], sequence = 1\<rparr>"
  by (simp add: milk_db_def milk_def model_defs)

lemma milk_gone_eq: "milk_gone = \<lparr>table = [milk\<lparr>DeletedAt := Some 20\<rparr>], sequence = 1\<rparr>"
  by (simp add: milk_gone_def DeleteTodo_def DB_Delete_def soft_delete_def BuildCondition_def
      Atoi_def digits_def digit_def milk_db_eq milk_def quiet_def live_def ok_def)

subsection \<open>List\<close>

lemma filter_hit_empty: "filter P xs = [] \<longleftrightarrow> (\<forall>r\<in>set xs. \<not> P r)"
  by (simp add: filter_empty_conv)

lemma GetTodos_works:
  "\<not> err1 e \<Longrightarrow> fst (GetTodos db e) =
     \<lparr>status = 200, body = Some (JArr (map MarshalTodo (sort_key ID (filter live (table db)))))\<rparr>"
  by (simp add: GetTodos_def DB_Find_def ok_def MarshalTodos_def)

lemma GetTodos_fails:
  "err1 e \<Longrightarrow> fst (GetTodos db e) =
     StopWithJSON 500 (iris_Map ''Failed to retrieve Todos from database.'')"
  by (simp add: GetTodos_def DB_Find_def failed_def)

lemma GetTodos_store: "snd (GetTodos db e) = db"
  by (simp add: GetTodos_def split: prod.splits)

lemma CreateTodo_store: "status (fst (CreateTodo db e rb)) \<noteq> 201 \<Longrightarrow> snd (CreateTodo db e rb) = db"
  by (auto simp: CreateTodo_def DB_Create_def created_def next_key_def Let_def StopWithJSON_def ok_def failed_def
      split: sum.splits if_splits)

text \<open>
  Claim C4. A list request that does not fail in the storage layer answers 200 with a JSON
  array that holds exactly the live rows (as a multiset); when no row is live the body is the
  empty array, not \<^verbatim>\<open>null\<close>.
\<close>

theorem GetTodos_responses:
  assumes "\<not> err1 e"
  shows "\<exists>ts. fst (GetTodos db e) = \<lparr>status = 200, body = Some (JArr (map MarshalTodo ts))\<rparr> \<and>
           mset ts = filter_mset live (mset (table db)) \<and>
           ((\<forall>r\<in>set (table db). \<not> live r) \<longrightarrow> body (fst (GetTodos db e)) = Some (JArr []))"
proof -
  let ?ts = "sort_key ID (filter live (table db))"
  have "fst (GetTodos db e) = \<lparr>status = 200, body = Some (JArr (map MarshalTodo ?ts))\<rparr>"
    using assms by (rule GetTodos_works)
  moreover have "mset ?ts = filter_mset live (mset (table db))"
    by simp
  moreover have "(\<forall>r\<in>set (table db). \<not> live r) \<longrightarrow> ?ts = []"
    by (simp add: filter_hit_empty [THEN iffD2])
  ultimately show ?thesis
    by (intro exI [of _ ?ts]) auto
qed

theorem GetTodos_responses_witness:
  "\<not> err1 (quiet 30) \<and>
   fst (GetTodos milk_db (quiet 30)) = \<lparr>status = 200, body = Some (JArr [MarshalTodo milk])\<rparr> \<and>
   filter live (table milk_gone) = [] \<and>
   body (fst (GetTodos milk_gone (quiet 30))) = Some (JArr []) \<and>
   body (fst (GetTodos init_DB (quiet 30))) = Some (JArr [])"
proof -
  have a: "\<not> err1 (quiet 30)" by (simp add: quiet_def)
  have b: "fst (GetTodos milk_db (quiet 30)) = \<lparr>status = 200, body = Some (JArr [MarshalTodo milk])\<rparr>"
    by (simp add: GetTodos_works a milk_db_eq milk_def live_def)
  have c: "\<forall>r\<in>set (table milk_gone). \<not> live r"
    by (simp add: milk_gone_eq live_def)
  have d: "\<forall>r\<in>set (table init_DB). \<not> live r"
    by (simp add: init_DB_def)
  have e: "body (fst (GetTodos milk_gone (quiet 30))) = Some (JArr [])"
    using GetTodos_responses [OF a, of milk_gone] c by blast
  have f: "body (fst (GetTodos init_DB (quiet 30))) = Some (JArr [])"
    using GetTodos_responses [OF a, of init_DB] d by blast
  have g: "filter live (table milk_gone) = []"
    using c by (simp add: filter_hit_empty)
  from a b g e f show ?thesis
    by (intro conjI)
qed

subsection \<open>Create\<close>

lemma fold_max_ge: "s \<le> fold max xs (s::nat)"
  by (induction xs arbitrary: s) (auto intro: order_trans [OF max.cobounded2])

lemma fold_max_upper: "x \<in> set xs \<Longrightarrow> x \<le> fold max xs (s::nat)"
proof (induction xs arbitrary: s)
  case Nil
  then show ?case by simp
next
  case (Cons y ys)
  show ?case
  proof (cases "x = y")
    case True
    have "y \<le> max y s" by simp
    also have "\<dots> \<le> fold max ys (max y s)" by (rule fold_max_ge)
    finally show ?thesis using True by simp
  next
    case False
    with Cons show ?thesis by simp
  qed
qed

lemma next_key_fresh: "r \<in> set (table db) \<Longrightarrow> ID r < next_key db"
  using fold_max_upper [of "ID r" "map ID (table db)" "sequence db"] by (simp add: next_key_def)

lemma CreateTodo_decoded:
  assumes "ReadJSON rb = Inr t"
  shows "CreateTodo db e rb =
     (if err1 e \<or> max_rowid < (if ID t = 0 then next_key db else ID t) \<or>
         (if ID t = 0 then next_key db else ID t) \<in> ID ` set (table db)
      then (StopWithJSON 500 (iris_Map ''Failed to create Todo item in database.''), db)
      else (\<lparr>status = 201,
              body = Some (MarshalTodo ((created (now e) t)\<lparr>ID := (if ID t = 0 then next_key db else ID t)\<rparr>))\<rparr>,
            \<lparr>table = table db @ [(created (now e) t)\<lparr>ID := (if ID t = 0 then next_key db else ID t)\<rparr>],
             sequence = max (sequence db) (if ID t = 0 then next_key db else ID t)\<rparr>))"
  using assms by (simp add: CreateTodo_def DB_Create_def Let_def failed_def ok_def created_def)

text \<open>
  Claim C5, as the handler has it. For a create request whose body decodes, at a non-zero
  clock: the key of the new row is the id of the body when that is not zero, and otherwise the
  next key of the store, which is larger than every key in the table. The answer is 201
  exactly when the storage layer does not fail, the key is not beyond the largest row id and
  no row has the key; it is 500 otherwise. A 201 answer carries the row that was appended to
  the table, with that key, which is not zero and not the key of another row, and with
  creation and update times that are those of the body when not zero, otherwise the clock, and
  so not zero.
\<close>

theorem CreateTodo_key:
  assumes "ReadJSON rb = Inr t" and "0 < now e"
  shows "(status (fst (CreateTodo db e rb)) = 201 \<longleftrightarrow>
            \<not> err1 e \<and> (if ID t = 0 then next_key db else ID t) \<le> max_rowid \<and>
            (if ID t = 0 then next_key db else ID t) \<notin> ID ` set (table db)) \<and>
         (status (fst (CreateTodo db e rb)) = 201 \<or> status (fst (CreateTodo db e rb)) = 500) \<and>
         (ID t = 0 \<longrightarrow> (\<forall>r\<in>set (table db). ID r < next_key db)) \<and>
         (status (fst (CreateTodo db e rb)) = 201 \<longrightarrow>
            (\<exists>row. body (fst (CreateTodo db e rb)) = Some (MarshalTodo row) \<and>
               table (snd (CreateTodo db e rb)) = table db @ [row] \<and>
               ID row = (if ID t = 0 then next_key db else ID t) \<and>
               ID row \<noteq> 0 \<and> ID row \<notin> ID ` set (table db) \<and>
               CreatedAt row = (if CreatedAt t = 0 then now e else CreatedAt t) \<and>
               UpdatedAt row = (if UpdatedAt t = 0 then now e else UpdatedAt t) \<and>
               CreatedAt row \<noteq> 0 \<and> UpdatedAt row \<noteq> 0 \<and>
               Title row = Title t \<and> Description row = Description t \<and>
               Completed row = Completed t))"
proof -
  let ?key = "if ID t = 0 then next_key db else ID t"
  let ?row = "(created (now e) t)\<lparr>ID := ?key\<rparr>"
  note eq = CreateTodo_decoded [OF assms(1), of db e]
  have s: "status (fst (CreateTodo db e rb)) =
      (if err1 e \<or> max_rowid < ?key \<or> ?key \<in> ID ` set (table db) then 500 else 201)"
    by (simp add: eq StopWithJSON_def)
  have nz: "?key \<noteq> 0"
    by (simp add: next_key_def)
  have c1: "status (fst (CreateTodo db e rb)) = 201 \<longleftrightarrow>
            \<not> err1 e \<and> ?key \<le> max_rowid \<and> ?key \<notin> ID ` set (table db)"
    unfolding s by auto
  have c2: "status (fst (CreateTodo db e rb)) = 201 \<or> status (fst (CreateTodo db e rb)) = 500"
    unfolding s by auto
  have c3: "ID t = 0 \<longrightarrow> (\<forall>r\<in>set (table db). ID r < next_key db)"
    using next_key_fresh by blast
  have c4: "\<exists>row. body (fst (CreateTodo db e rb)) = Some (MarshalTodo row) \<and>
               table (snd (CreateTodo db e rb)) = table db @ [row] \<and>
               ID row = ?key \<and>
               ID row \<noteq> 0 \<and> ID row \<notin> ID ` set (table db) \<and>
               CreatedAt row = (if CreatedAt t = 0 then now e else CreatedAt t) \<and>
               UpdatedAt row = (if UpdatedAt t = 0 then now e else UpdatedAt t) \<and>
               CreatedAt row \<noteq> 0 \<and> UpdatedAt row \<noteq> 0 \<and>
               Title row = Title t \<and> Description row = Description t \<and>
               Completed row = Completed t"
    if ok: "status (fst (CreateTodo db e rb)) = 201"
  proof -
    from ok c1 have g: "\<not> (err1 e \<or> max_rowid < ?key \<or> ?key \<in> ID ` set (table db))"
      by auto
    have b: "body (fst (CreateTodo db e rb)) = Some (MarshalTodo ?row)"
      and t: "table (snd (CreateTodo db e rb)) = table db @ [?row]"
      unfolding eq using g by simp_all
    have k: "ID ?row = ?key" by simp
    have f: "ID ?row \<noteq> 0" "ID ?row \<notin> ID ` set (table db)"
      using nz g by simp_all
    have ts: "CreatedAt ?row = (if CreatedAt t = 0 then now e else CreatedAt t)"
      "UpdatedAt ?row = (if UpdatedAt t = 0 then now e else UpdatedAt t)"
      by (simp_all add: created_def)
    have tz: "CreatedAt ?row \<noteq> 0" "UpdatedAt ?row \<noteq> 0"
      using assms(2) by (simp_all add: created_def)
    have rest: "Title ?row = Title t" "Description ?row = Description t" "Completed ?row = Completed t"
      by (simp_all add: created_def)
    from b t k f ts tz rest show ?thesis
      by (intro exI [of _ ?row] conjI)
  qed
  from c1 c2 c3 c4 show ?thesis
    by blast
qed

theorem CreateTodo_key_witness:
  "ReadJSON (Object no_members) = Inr zero_Todo \<and> 0 < now (quiet 20) \<and>
   status (fst (CreateTodo milk_db (quiet 20) (Object no_members))) = 201 \<and>
   (\<exists>row. body (fst (CreateTodo milk_db (quiet 20) (Object no_members))) = Some (MarshalTodo row) \<and>
      table (snd (CreateTodo milk_db (quiet 20) (Object no_members))) = table milk_db @ [row] \<and>
      ID row = 2 \<and> CreatedAt row = 20 \<and> UpdatedAt row = 20)"
proof -
  have a: "ReadJSON (Object no_members) = Inr zero_Todo"
    by (simp add: ReadJSON_def no_members_def or_zero_def zero_Todo_def)
  have b: "0 < now (quiet 20)"
    by (simp add: quiet_def)
  have k: "(if ID zero_Todo = 0 then next_key milk_db else ID zero_Todo) = 2"
    by (simp add: zero_Todo_def next_key_def milk_db_eq milk_def)
  have z: "CreatedAt zero_Todo = 0" "UpdatedAt zero_Todo = 0" "now (quiet 20) = 20"
    by (simp_all add: zero_Todo_def quiet_def)
  have g: "\<not> err1 (quiet 20) \<and> 2 \<le> max_rowid \<and> 2 \<notin> ID ` set (table milk_db)"
    by (simp add: quiet_def max_rowid_def milk_db_eq milk_def)
  note th = CreateTodo_key [OF a b, of milk_db, unfolded k z]
  have c: "status (fst (CreateTodo milk_db (quiet 20) (Object no_members))) = 201"
    using th g by blast
  with th have "\<exists>row. body (fst (CreateTodo milk_db (quiet 20) (Object no_members))) = Some (MarshalTodo row) \<and>
      table (snd (CreateTodo milk_db (quiet 20) (Object no_members))) = table milk_db @ [row] \<and>
      ID row = 2 \<and> CreatedAt row = 20 \<and> UpdatedAt row = 20"
    by auto
  with a b c show ?thesis
    by (intro conjI)
qed

text \<open>
  Against claim C5 as it is stated: on the empty store a body with id 7 is answered with the
  record of id 7, where a body without id gets id 1; and a body that decodes, with the id of
  an existing row, is answered with 500.
\<close>

theorem CreateTodo_key_counterexample:
  "fst (CreateTodo init_DB (quiet 10) (Object seven)) =
     \<lparr>status = 201, body = Some (MarshalTodo seven_row)\<rparr> \<and>
   fst (CreateTodo init_DB (quiet 10) (Object no_members)) =
     \<lparr>status = 201, body = Some (MarshalTodo (seven_row\<lparr>ID := 1\<rparr>))\<rparr> \<and>
   status (fst (CreateTodo milk_db (quiet 20) (Object (no_members\<lparr>j_id := Some 1\<rparr>)))) = 500"
  by (simp add: seven_def seven_row_def milk_db_eq milk_def model_defs)

subsection \<open>Conditions\<close>

lemma big_id: "BuildCondition ''9223372036854775808'' = Expr ''9223372036854775808''"
  by (simp add: BuildCondition_def Atoi_def digits_def digit_def)

lemma big_digits: "digits ''9223372036854775808'' = Some 9223372036854775808"
  by (simp add: digits_def digit_def)

lemma one_id: "BuildCondition ''1'' = PrimaryKey 1"
  by (simp add: BuildCondition_def Atoi_def digits_def digit_def)

lemma plain_one: "plain ''1''"
  by (simp add: plain_def one_id)

lemma ID_zero_Todo: "ID zero_Todo = 0"
  by (simp add: zero_Todo_def)

lemma first_row_None:
  "first_row cond dest db = None \<longleftrightarrow>
     (\<forall>r\<in>set (table db). \<not> (live r \<and> cond r \<and> (ID dest = 0 \<or> ID r = ID dest)))"
  by (auto simp: first_row_def find_None_iff)

lemma find_Some_member: "find P xs = Some x \<Longrightarrow> P x \<and> x \<in> set xs"
  by (induction xs) (auto split: if_splits)

lemma first_row_Some:
  "first_row cond dest db = Some r \<Longrightarrow>
     r \<in> set (table db) \<and> live r \<and> cond r \<and> (ID dest = 0 \<or> ID r = ID dest)"
  using find_Some_member [of "\<lambda>r. cond r \<and> (ID dest = 0 \<or> ID r = ID dest)"
      "sort_key ID (filter live (table db))" r]
  by (auto simp: first_row_def)

lemma select_first_store: "snd (snd (select_first cond dest db)) = db"
  by (simp add: select_first_def split: option.splits)

lemma DB_First_fails: "DB_First eng db True dest s = (failed ErrStorage, dest, db)"
  by (simp add: DB_First_def)

lemma DB_First_key:
  "BuildCondition s = PrimaryKey k \<Longrightarrow>
   DB_First eng db False dest s = select_first (\<lambda>r. int (ID r) = k) dest db"
  by (simp add: DB_First_def)

lemma DB_First_literal:
  "BuildCondition s = Expr sql \<Longrightarrow> digits sql = Some n \<Longrightarrow>
   DB_First eng db False dest s = select_first (\<lambda>r. n \<noteq> 0) dest db"
  by (simp add: DB_First_def)

lemma DB_First_plain_store: "plain s \<Longrightarrow> snd (snd (DB_First eng db f dest s)) = db"
  by (auto simp: DB_First_def plain_def select_first_store split: condition.splits option.splits)

lemma DB_First_big:
  "DB_First eng db False dest ''9223372036854775808'' = select_first (\<lambda>r. True) dest db"
  by (simp add: DB_First_literal [OF big_id big_digits])

subsection \<open>Get by id\<close>

lemma GetTodoByID_by_key:
  assumes "BuildCondition s = PrimaryKey (int k)" and "\<not> err1 e"
  shows "(\<forall>r\<in>set (table db). \<not> (live r \<and> ID r = k)) \<longrightarrow>
           GetTodoByID eng db e s = (StopWithJSON 404 (iris_Map ''Todo item not found.''), db)"
    and "(\<exists>r\<in>set (table db). live r \<and> ID r = k) \<longrightarrow>
           (\<exists>r\<in>set (table db). live r \<and> ID r = k \<and>
              GetTodoByID eng db e s = (\<lparr>status = 200, body = Some (MarshalTodo r)\<rparr>, db))"
proof -
  let ?c = "\<lambda>r. int (ID r) = int k"
  have eq: "DB_First eng db (err1 e) zero_Todo s = select_first ?c zero_Todo db"
    using assms by (simp add: DB_First_key)
  show "(\<forall>r\<in>set (table db). \<not> (live r \<and> ID r = k)) \<longrightarrow>
           GetTodoByID eng db e s = (StopWithJSON 404 (iris_Map ''Todo item not found.''), db)"
  proof
    assume "\<forall>r\<in>set (table db). \<not> (live r \<and> ID r = k)"
    then have "first_row ?c zero_Todo db = None"
      by (simp add: first_row_None ID_zero_Todo)
    then show "GetTodoByID eng db e s = (StopWithJSON 404 (iris_Map ''Todo item not found.''), db)"
      by (simp add: GetTodoByID_def eq select_first_def failed_def)
  qed
  show "(\<exists>r\<in>set (table db). live r \<and> ID r = k) \<longrightarrow>
           (\<exists>r\<in>set (table db). live r \<and> ID r = k \<and>
              GetTodoByID eng db e s = (\<lparr>status = 200, body = Some (MarshalTodo r)\<rparr>, db))"
  proof
    assume "\<exists>r\<in>set (table db). live r \<and> ID r = k"
    then have "first_row ?c zero_Todo db \<noteq> None"
      by (auto simp: first_row_None ID_zero_Todo)
    then obtain r where r: "first_row ?c zero_Todo db = Some r"
      by blast
    from first_row_Some [OF r] have "r \<in> set (table db) \<and> live r \<and> ID r = k"
      by simp
    moreover from r have "GetTodoByID eng db e s = (\<lparr>status = 200, body = Some (MarshalTodo r)\<rparr>, db)"
      by (simp add: GetTodoByID_def eq select_first_def ok_def)
    ultimately show "\<exists>r\<in>set (table db). live r \<and> ID r = k \<and>
              GetTodoByID eng db e s = (\<lparr>status = 200, body = Some (MarshalTodo r)\<rparr>, db)"
      by blast
  qed
qed

lemma GetTodoByID_fails:
  "err1 e \<Longrightarrow> GetTodoByID eng db e s =
     (StopWithJSON 500 (iris_Map ''Failed to retrieve Todo item from database.''), db)"
  by (simp add: GetTodoByID_def DB_First_fails failed_def)

text \<open>
  Claim C6 fails on the handler. The store holds one record, with id 1. A get-by-id request
  for 9223372036854775808 is answered with 200 and that record, whatever the engine: the
  string is not in the range of \<^verbatim>\<open>int\<close>, so the ORM makes it the text of the condition,
  a numeric literal that is true of every row. No record has that id, and the claim says 404.
\<close>

theorem GetTodoByID_unparsed_id:
  "map ID (table milk_db) = [1] \<and>
   GetTodoByID eng milk_db (quiet 30) ''9223372036854775808'' =
     (\<lparr>status = 200, body = Some (MarshalTodo milk)\<rparr>, milk_db)"
  by (simp add: GetTodoByID_def DB_First_big select_first_def first_row_def milk_db_eq milk_def
      quiet_def live_def ok_def zero_Todo_def)

subsection \<open>Update: the outcomes\<close>

lemma UpdateTodo_fails:
  "err1 e \<Longrightarrow> UpdateTodo eng db e s rb =
     (StopWithJSON 500 (iris_Map ''Database error while fetching item.''), db)"
  by (simp add: UpdateTodo_def DB_First_fails failed_def)

lemma UpdateTodo_missing:
  "DB_First eng db (err1 e) zero_Todo s = (result, t, db0) \<Longrightarrow>
   Error result = Some ErrRecordNotFound \<Longrightarrow>
   UpdateTodo eng db e s rb = (StopWithJSON 404 (iris_Map ''Todo item not found.''), db0)"
  by (simp add: UpdateTodo_def)

lemma UpdateTodo_malformed:
  "DB_First eng db (err1 e) zero_Todo s = (result, t, db0) \<Longrightarrow> Error result = None \<Longrightarrow>
   ReadJSON rb = Inl msg \<Longrightarrow>
   UpdateTodo eng db e s rb = (StopWithJSON 400 (iris_Map ''Invalid input data.''), db0)"
  by (simp add: UpdateTodo_def)

lemma DB_Updates_struct: "fst (snd (DB_Updates db t f m u)) = assign t u m"
  by (simp add: DB_Updates_def Let_def)

lemma UpdateTodo_found:
  assumes "DB_First eng db (err1 e) zero_Todo s = (result, t, db0)" and "Error result = None"
    and "ReadJSON rb = Inr u"
  shows "UpdateTodo eng db e s rb =
     (\<lparr>status = 200,
       body = Some (MarshalTodo (fst (snd (DB_First eng (snd (snd (DB_Updates db0 (now e) (err2 e) t u)))
                                       (err3 e) (assign (now e) u t) s))))\<rparr>,
      snd (snd (DB_First eng (snd (snd (DB_Updates db0 (now e) (err2 e) t u)))
                   (err3 e) (assign (now e) u t) s)))"
  using assms DB_Updates_struct [of db0 "now e" "err2 e" t u]
  by (auto simp: UpdateTodo_def split: prod.splits)

lemma select_first_missing:
  "first_row cond dest db = None \<Longrightarrow> select_first cond dest db = (failed ErrRecordNotFound, dest, db)"
  by (simp add: select_first_def)

lemma UpdateTodo_by_key:
  assumes "BuildCondition s = PrimaryKey (int k)" and "\<not> err1 e"
  shows "(\<forall>r\<in>set (table db). \<not> (live r \<and> ID r = k)) \<longrightarrow>
           UpdateTodo eng db e s rb = (StopWithJSON 404 (iris_Map ''Todo item not found.''), db)"
    and "status (fst (UpdateTodo eng db e s rb)) = 400 \<longrightarrow>
           (\<exists>r\<in>set (table db). live r \<and> ID r = k) \<and> (\<exists>msg. ReadJSON rb = Inl msg)"
proof -
  let ?c = "\<lambda>r. int (ID r) = int k"
  have eq: "DB_First eng db (err1 e) zero_Todo s = select_first ?c zero_Todo db"
    using assms by (simp add: DB_First_key)
  show "(\<forall>r\<in>set (table db). \<not> (live r \<and> ID r = k)) \<longrightarrow>
           UpdateTodo eng db e s rb = (StopWithJSON 404 (iris_Map ''Todo item not found.''), db)"
  proof
    assume "\<forall>r\<in>set (table db). \<not> (live r \<and> ID r = k)"
    then have "first_row ?c zero_Todo db = None"
      by (simp add: first_row_None ID_zero_Todo)
    then have "DB_First eng db (err1 e) zero_Todo s = (failed ErrRecordNotFound, zero_Todo, db)"
      by (simp add: eq select_first_missing)
    then show "UpdateTodo eng db e s rb = (StopWithJSON 404 (iris_Map ''Todo item not found.''), db)"
      by (rule UpdateTodo_missing) (simp add: failed_def)
  qed
  show "status (fst (UpdateTodo eng db e s rb)) = 400 \<longrightarrow>
           (\<exists>r\<in>set (table db). live r \<and> ID r = k) \<and> (\<exists>msg. ReadJSON rb = Inl msg)"
  proof
    assume bad: "status (fst (UpdateTodo eng db e s rb)) = 400"
    show "(\<exists>r\<in>set (table db). live r \<and> ID r = k) \<and> (\<exists>msg. ReadJSON rb = Inl msg)"
    proof (cases "first_row ?c zero_Todo db")
      case None
      then have "DB_First eng db (err1 e) zero_Todo s = (failed ErrRecordNotFound, zero_Todo, db)"
        by (simp add: eq select_first_missing)
      then have "UpdateTodo eng db e s rb = (StopWithJSON 404 (iris_Map ''Todo item not found.''), db)"
        by (rule UpdateTodo_missing) (simp add: failed_def)
      with bad show ?thesis by (simp add: StopWithJSON_def)
    next
      case (Some r)
      then have f: "DB_First eng db (err1 e) zero_Todo s = (ok 1, r, db)"
        by (simp add: eq select_first_def)
      have n: "Error (ok 1) = None" by (simp add: ok_def)
      from first_row_Some [OF Some] have there: "\<exists>r\<in>set (table db). live r \<and> ID r = k"
        by auto
      show ?thesis
      proof (cases "ReadJSON rb")
        case (Inl msg)
        with there show ?thesis by blast
      next
        case (Inr u)
        from UpdateTodo_found [OF f n Inr] bad show ?thesis by simp
      qed
    qed
  qed
qed

text \<open>
  Claim C7 fails on the handler. The store holds one record, with id 1. An update request for
  9223372036854775808 finds that record in the first lookup, for the reason given at claim C6,
  and goes on to the body: a malformed body is answered with 400 and a body that decodes with
  200, after the record of id 1 has been written. No record has that id, and the claim says
  404 whatever the body is, and 400 only when the record exists.
\<close>

theorem UpdateTodo_unparsed_id:
  "map ID (table milk_db) = [1] \<and>
   UpdateTodo eng milk_db (quiet 30) ''9223372036854775808'' (Malformed ''unexpected EOF'') =
     (StopWithJSON 400 (iris_Map ''Invalid input data.''), milk_db) \<and>
   UpdateTodo eng milk_db (quiet 30) ''9223372036854775808'' (Object no_members) =
     (\<lparr>status = 200, body = Some (MarshalTodo (milk\<lparr>UpdatedAt := 30\<rparr>))\<rparr>,
      \<lparr>table = [milk\<lparr>UpdatedAt := 30\<rparr>], sequence = 1\<rparr>)"
proof -
  have f: "DB_First eng milk_db (err1 (quiet 30)) zero_Todo ''9223372036854775808'' = (ok 1, milk, milk_db)"
    by (simp add: DB_First_big select_first_def first_row_def milk_db_eq milk_def quiet_def
        live_def zero_Todo_def)
  have n: "Error (ok 1) = None" by (simp add: ok_def)
  have a: "map ID (table milk_db) = [1]"
    by (simp add: milk_db_eq milk_def)
  have b: "UpdateTodo eng milk_db (quiet 30) ''9223372036854775808'' (Malformed ''unexpected EOF'') =
     (StopWithJSON 400 (iris_Map ''Invalid input data.''), milk_db)"
    by (rule UpdateTodo_malformed [OF f n]) (simp add: ReadJSON_def)
  have r: "ReadJSON (Object no_members) = Inr zero_Todo"
    by (simp add: ReadJSON_def no_members_def or_zero_def zero_Todo_def)
  have u: "DB_Updates milk_db (now (quiet 30)) (err2 (quiet 30)) milk zero_Todo =
      (ok 1, milk\<lparr>UpdatedAt := 30\<rparr>, \<lparr>table = [milk\<lparr>UpdatedAt := 30\<rparr>], sequence = 1\<rparr>)"
    by (simp add: DB_Updates_def Let_def assign_def zero_Todo_def milk_db_eq milk_def quiet_def
        live_def ok_def)
  have g: "assign (now (quiet 30)) zero_Todo milk = milk\<lparr>UpdatedAt := 30\<rparr>"
    by (simp add: assign_def zero_Todo_def milk_def quiet_def)
  have s: "DB_First eng \<lparr>table = [milk\<lparr>UpdatedAt := 30\<rparr>], sequence = 1\<rparr> (err3 (quiet 30))
      (milk\<lparr>UpdatedAt := 30\<rparr>) ''9223372036854775808'' =
      (ok 1, milk\<lparr>UpdatedAt := 30\<rparr>, \<lparr>table = [milk\<lparr>UpdatedAt := 30\<rparr>], sequence = 1\<rparr>)"
    by (simp add: DB_First_big select_first_def first_row_def milk_def quiet_def live_def)
  have c: "UpdateTodo eng milk_db (quiet 30) ''9223372036854775808'' (Object no_members) =
     (\<lparr>status = 200, body = Some (MarshalTodo (milk\<lparr>UpdatedAt := 30\<rparr>))\<rparr>,
      \<lparr>table = [milk\<lparr>UpdatedAt := 30\<rparr>], sequence = 1\<rparr>)"
    by (simp only: UpdateTodo_found [OF f n r] u g snd_conv fst_conv s)
  from a b c show ?thesis by (intro conjI)
qed

lemma DB_Updates_fails: "snd (snd (DB_Updates db t True m u)) = db"
  by (simp add: DB_Updates_def Let_def)

text \<open>
  Claim C10. Once the first lookup has succeeded and the body has decoded, the update handler
  answers 200 whether or not the update statement and the second lookup fail. When the update
  statement fails it leaves the store as the first lookup left it, which for a plain path
  parameter is the store of the request, and when the second lookup fails as well the body is
  the struct as merged in memory, which was never stored.
\<close>

theorem UpdateTodo_always_200:
  assumes "DB_First eng db (err1 e) zero_Todo id_param = (result, existingTodo, db0)"
    and "Error result = None" and "ReadJSON rb = Inr updatedTodo"
  shows "status (fst (UpdateTodo eng db (e\<lparr>err2 := f2, err3 := f3\<rparr>) id_param rb)) = 200 \<and>
         snd (UpdateTodo eng db (e\<lparr>err2 := True, err3 := f3\<rparr>) id_param rb) =
           snd (snd (DB_First eng db0 f3 (assign (now e) updatedTodo existingTodo) id_param)) \<and>
         (plain id_param \<longrightarrow>
            snd (UpdateTodo eng db (e\<lparr>err2 := True, err3 := f3\<rparr>) id_param rb) = db) \<and>
         UpdateTodo eng db (e\<lparr>err2 := True, err3 := True\<rparr>) id_param rb =
           (\<lparr>status = 200, body = Some (MarshalTodo (assign (now e) updatedTodo existingTodo))\<rparr>,
            db0)"
proof -
  have found: "UpdateTodo eng db (e\<lparr>err2 := a, err3 := b\<rparr>) id_param rb =
     (\<lparr>status = 200,
       body = Some (MarshalTodo (fst (snd (DB_First eng
                (snd (snd (DB_Updates db0 (now e) a existingTodo updatedTodo)))
                b (assign (now e) updatedTodo existingTodo) id_param))))\<rparr>,
      snd (snd (DB_First eng (snd (snd (DB_Updates db0 (now e) a existingTodo updatedTodo)))
                  b (assign (now e) updatedTodo existingTodo) id_param)))" for a b
    using UpdateTodo_found [of eng db "e\<lparr>err2 := a, err3 := b\<rparr>" id_param result existingTodo
        db0 rb updatedTodo] assms by simp
  have c1: "status (fst (UpdateTodo eng db (e\<lparr>err2 := f2, err3 := f3\<rparr>) id_param rb)) = 200"
    by (simp add: found)
  have c2: "snd (UpdateTodo eng db (e\<lparr>err2 := True, err3 := f3\<rparr>) id_param rb) =
           snd (snd (DB_First eng db0 f3 (assign (now e) updatedTodo existingTodo) id_param))"
    by (simp add: found DB_Updates_fails)
  have c3: "snd (UpdateTodo eng db (e\<lparr>err2 := True, err3 := f3\<rparr>) id_param rb) = db"
    if p: "plain id_param"
  proof -
    from assms(1) DB_First_plain_store [OF p, of eng db "err1 e" zero_Todo] have "db0 = db"
      by simp
    with c2 DB_First_plain_store [OF p] show ?thesis
      by simp
  qed
  have c4: "UpdateTodo eng db (e\<lparr>err2 := True, err3 := True\<rparr>) id_param rb =
           (\<lparr>status = 200, body = Some (MarshalTodo (assign (now e) updatedTodo existingTodo))\<rparr>,
            db0)"
    by (simp add: found DB_Updates_fails DB_First_fails)
  from c1 c2 c3 c4 show ?thesis
    by blast
qed

theorem UpdateTodo_always_200_witness:
  "DB_First no_sql milk_db (err1 (quiet 20)) zero_Todo ''1'' = (ok 1, milk, milk_db) \<and>
   Error (ok 1) = None \<and>
   ReadJSON (Object (no_members\<lparr>j_title := Some ''Buy bread''\<rparr>)) = Inr bread \<and>
   plain ''1'' \<and>
   status (fst (UpdateTodo no_sql milk_db ((quiet 20)\<lparr>err2 := False, err3 := True\<rparr>) ''1''
      (Object (no_members\<lparr>j_title := Some ''Buy bread''\<rparr>)))) = 200 \<and>
   snd (UpdateTodo no_sql milk_db ((quiet 20)\<lparr>err2 := True, err3 := False\<rparr>) ''1''
      (Object (no_members\<lparr>j_title := Some ''Buy bread''\<rparr>))) = milk_db \<and>
   UpdateTodo no_sql milk_db ((quiet 20)\<lparr>err2 := True, err3 := True\<rparr>) ''1''
      (Object (no_members\<lparr>j_title := Some ''Buy bread''\<rparr>)) =
     (\<lparr>status = 200, body = Some (MarshalTodo (milk\<lparr>UpdatedAt := 20, Title := ''Buy bread''\<rparr>))\<rparr>,
      milk_db)"
proof -
  have a: "DB_First no_sql milk_db (err1 (quiet 20)) zero_Todo ''1'' = (ok 1, milk, milk_db)"
    by (simp add: DB_First_key [OF one_id] select_first_def first_row_def milk_db_eq milk_def
        quiet_def live_def zero_Todo_def)
  have b: "Error (ok 1) = None"
    by (simp add: ok_def)
  have c: "ReadJSON (Object (no_members\<lparr>j_title := Some ''Buy bread''\<rparr>)) = Inr bread"
    by (simp add: bread_def ReadJSON_def no_members_def or_zero_def)
  have d: "assign (now (quiet 20)) bread milk = milk\<lparr>UpdatedAt := 20, Title := ''Buy bread''\<rparr>"
    by (simp add: assign_def bread_def milk_def quiet_def)
  note t1 = UpdateTodo_always_200 [OF a b c, where ?f2.0 = False and ?f3.0 = True]
  note t2 = UpdateTodo_always_200 [OF a b c, where ?f2.0 = True and ?f3.0 = False]
  have w1: "status (fst (UpdateTodo no_sql milk_db ((quiet 20)\<lparr>err2 := False, err3 := True\<rparr>) ''1''
      (Object (no_members\<lparr>j_title := Some ''Buy bread''\<rparr>)))) = 200"
    using t1 by blast
  have w2: "snd (UpdateTodo no_sql milk_db ((quiet 20)\<lparr>err2 := True, err3 := False\<rparr>) ''1''
      (Object (no_members\<lparr>j_title := Some ''Buy bread''\<rparr>))) = milk_db"
    using t2 plain_one by blast
  have w3: "UpdateTodo no_sql milk_db ((quiet 20)\<lparr>err2 := True, err3 := True\<rparr>) ''1''
      (Object (no_members\<lparr>j_title := Some ''Buy bread''\<rparr>)) =
     (\<lparr>status = 200, body = Some (MarshalTodo (milk\<lparr>UpdatedAt := 20, Title := ''Buy bread''\<rparr>))\<rparr>,
      milk_db)"
    using t1 d by simp
  from a b c plain_one w1 w2 w3 show ?thesis
    by (intro conjI)
qed

subsection \<open>The JSON shape of a todo\<close>

lemma CreateTodo_body:
  "status (fst (CreateTodo db e rb)) = 201 \<Longrightarrow>
   \<exists>t. body (fst (CreateTodo db e rb)) = Some (MarshalTodo t)"
  by (auto simp: CreateTodo_def StopWithJSON_def split: sum.splits prod.splits if_splits)

lemma GetTodoByID_body:
  "status (fst (GetTodoByID eng db e id_param)) = 200 \<Longrightarrow>
   \<exists>t. body (fst (GetTodoByID eng db e id_param)) = Some (MarshalTodo t)"
  by (auto simp: GetTodoByID_def StopWithJSON_def split: prod.splits if_splits)

lemma UpdateTodo_body:
  "status (fst (UpdateTodo eng db e id_param rb)) = 200 \<Longrightarrow>
   \<exists>t. body (fst (UpdateTodo eng db e id_param rb)) = Some (MarshalTodo t)"
  by (auto simp: UpdateTodo_def StopWithJSON_def split: sum.splits prod.splits if_splits)

lemma GetTodos_body:
  "status (fst (GetTodos db e)) = 200 \<Longrightarrow>
   \<exists>ts. body (fst (GetTodos db e)) = Some (JArr (map MarshalTodo ts))"
  by (cases "err1 e") (auto simp: GetTodos_works GetTodos_fails StopWithJSON_def)

text \<open>
  Claim C8. Every body of a successful create, get-by-id or update response is the encoding of
  one todo, and every body of a successful list response is an array of such encodings; the
  encoding of a todo is an object with exactly the members id, created_at, updated_at, title,
  description and completed, in this order, and so without a member deleted_at.
\<close>

theorem todo_json_shape:
  "(status (fst (CreateTodo db e rb)) = 201 \<longrightarrow>
      (\<exists>t. body (fst (CreateTodo db e rb)) = Some (MarshalTodo t))) \<and>
   (status (fst (GetTodos db e)) = 200 \<longrightarrow>
      (\<exists>ts. body (fst (GetTodos db e)) = Some (JArr (map MarshalTodo ts)))) \<and>
   (status (fst (GetTodoByID eng db e id_param)) = 200 \<longrightarrow>
      (\<exists>t. body (fst (GetTodoByID eng db e id_param)) = Some (MarshalTodo t))) \<and>
   (status (fst (UpdateTodo eng db e id_param rb)) = 200 \<longrightarrow>
      (\<exists>t. body (fst (UpdateTodo eng db e id_param rb)) = Some (MarshalTodo t))) \<and>
   member_names (MarshalTodo todo) =
      [''id'', ''created_at'', ''updated_at'', ''title'', ''description'', ''completed''] \<and>
   ''deleted_at'' \<notin> set (member_names (MarshalTodo todo))"
proof -
  have "member_names (MarshalTodo todo) =
      [''id'', ''created_at'', ''updated_at'', ''title'', ''description'', ''completed'']"
    by (simp add: member_names_def MarshalTodo_def)
  moreover from this have "''deleted_at'' \<notin> set (member_names (MarshalTodo todo))"
    by simp
  ultimately show ?thesis
    using CreateTodo_body GetTodos_body GetTodoByID_body UpdateTodo_body by blast
qed

theorem todo_json_shape_witness:
  "status (fst (CreateTodo init_DB (quiet 10) (Object no_members))) = 201 \<and>
   (\<exists>t. body (fst (CreateTodo init_DB (quiet 10) (Object no_members))) = Some (MarshalTodo t)) \<and>
   status (fst (GetTodos milk_db (quiet 30))) = 200 \<and>
   (\<exists>ts. body (fst (GetTodos milk_db (quiet 30))) = Some (JArr (map MarshalTodo ts))) \<and>
   status (fst (GetTodoByID no_sql milk_db (quiet 30) ''1'')) = 200 \<and>
   (\<exists>t. body (fst (GetTodoByID no_sql milk_db (quiet 30) ''1'')) = Some (MarshalTodo t)) \<and>
   status (fst (UpdateTodo no_sql milk_db (quiet 30) ''1'' (Object no_members))) = 200 \<and>
   (\<exists>t. body (fst (UpdateTodo no_sql milk_db (quiet 30) ''1'' (Object no_members))) = Some (MarshalTodo t)) \<and>
   member_names (MarshalTodo milk) =
      [''id'', ''created_at'', ''updated_at'', ''title'', ''description'', ''completed'']"
proof -
  have a: "status (fst (CreateTodo init_DB (quiet 10) (Object no_members))) = 201"
    by (simp add: model_defs)
  have b: "status (fst (GetTodos milk_db (quiet 30))) = 200"
    by (simp add: GetTodos_works quiet_def)
  have c: "status (fst (GetTodoByID no_sql milk_db (quiet 30) ''1'')) = 200"
    by (simp add: milk_db_eq milk_def model_defs)
  have d: "status (fst (UpdateTodo no_sql milk_db (quiet 30) ''1'' (Object no_members))) = 200"
    by (simp add: milk_db_eq milk_def model_defs)
  note t1 = todo_json_shape [of init_DB "quiet 10" "Object no_members" no_sql "''1''" milk]
  note t2 = todo_json_shape [of milk_db "quiet 30" "Object no_members" no_sql "''1''" milk]
  have a': "\<exists>t. body (fst (CreateTodo init_DB (quiet 10) (Object no_members))) = Some (MarshalTodo t)"
    using t1 a by blast
  have b': "\<exists>ts. body (fst (GetTodos milk_db (quiet 30))) = Some (JArr (map MarshalTodo ts))"
    using t2 b by blast
  have c': "\<exists>t. body (fst (GetTodoByID no_sql milk_db (quiet 30) ''1'')) = Some (MarshalTodo t)"
    using t2 c by blast
  have d': "\<exists>t. body (fst (UpdateTodo no_sql milk_db (quiet 30) ''1'' (Object no_members))) = Some (MarshalTodo t)"
    using t2 d by blast
  have e': "member_names (MarshalTodo milk) =
      [''id'', ''created_at'', ''updated_at'', ''title'', ''description'', ''completed'']"
    using t2 by blast
  from a a' b b' c c' d d' e' show ?thesis
    by (intro conjI)
qed

subsection \<open>Delete\<close>

lemma DeleteTodo_fails:
  "err1 e \<Longrightarrow> DeleteTodo eng db e s =
     (StopWithJSON 500 (iris_Map ''Failed to delete Todo item from database.''), db)"
  by (simp add: DeleteTodo_def DB_Delete_def failed_def)

lemma map_unhit: "filter P xs = [] \<Longrightarrow> map (\<lambda>r. if P r then g r else r) xs = xs"
  by (induction xs) (auto split: if_splits)

lemma DeleteTodo_soft:
  assumes "DB_Delete eng db (now e) (err1 e) s = soft_delete cond (now e) db"
  shows "DeleteTodo eng db e s =
     (if \<forall>r\<in>set (table db). \<not> (live r \<and> cond r)
      then StopWithJSON 404 (iris_Map ''Todo item not found.'')
      else \<lparr>status = 204, body = None\<rparr>,
      db\<lparr>table := map (\<lambda>r. if live r \<and> cond r then r\<lparr>DeletedAt := Some (now e)\<rparr> else r)
                     (table db)\<rparr>)"
  by (auto simp: DeleteTodo_def assms soft_delete_def ok_def filter_hit_empty)

lemma DB_Delete_key:
  "BuildCondition s = PrimaryKey k \<Longrightarrow>
   DB_Delete eng db t False s = soft_delete (\<lambda>r. int (ID r) = k) t db"
  by (simp add: DB_Delete_def)

lemma DB_Delete_big:
  "DB_Delete eng db t False ''9223372036854775808'' = soft_delete (\<lambda>r. True) t db"
  by (simp add: DB_Delete_def big_id big_digits)

lemma DeleteTodo_by_key:
  assumes "BuildCondition s = PrimaryKey (int k)" and "\<not> err1 e"
  shows "DeleteTodo eng db e s =
     (if \<forall>r\<in>set (table db). \<not> (live r \<and> ID r = k)
      then StopWithJSON 404 (iris_Map ''Todo item not found.'')
      else \<lparr>status = 204, body = None\<rparr>,
      db\<lparr>table := map (\<lambda>r. if live r \<and> ID r = k then r\<lparr>DeletedAt := Some (now e)\<rparr> else r)
                     (table db)\<rparr>)"
proof -
  have "DB_Delete eng db (now e) (err1 e) s = soft_delete (\<lambda>r. int (ID r) = int k) (now e) db"
    using assms by (simp add: DB_Delete_key)
  from DeleteTodo_soft [OF this] show ?thesis
    by simp
qed

text \<open>
  Claim C3 fails on the handler. The store holds two records, with ids 1 and 2. A delete
  request for 9223372036854775808 is answered with 204, and both records are soft-deleted,
  whatever the engine: the string is not in the range of \<^verbatim>\<open>int\<close>, so the ORM makes it
  the text of the condition, a numeric literal that is true of every row. No record has that
  id, and the claim says 404 (zero rows affected).
\<close>

theorem DeleteTodo_unparsed_id:
  "map ID (table two_db) = [1, 2] \<and>
   DeleteTodo eng two_db (quiet 30) ''9223372036854775808'' =
     (\<lparr>status = 204, body = None\<rparr>,
      \<lparr>table = [milk\<lparr>DeletedAt := Some 30\<rparr>, eggs\<lparr>DeletedAt := Some 30\<rparr>], sequence = 2\<rparr>)"
  by (simp add: DeleteTodo_def DB_Delete_big soft_delete_def two_db_def milk_def eggs_def
      quiet_def live_def ok_def)

text \<open>
  Claim C9 fails on the handler, for a path parameter that the ORM takes for condition text
  and that holds a second statement. With an engine that runs both statements, the get-by-id
  request is answered with 404 and leaves the table empty.
\<close>

theorem GetTodoByID_writes:
  "GetTodoByID two_statements milk_db (quiet 30) ''1; DELETE FROM todos --'' =
     (StopWithJSON 404 (iris_Map ''Todo item not found.''), \<lparr>table = [], sequence = 1\<rparr>)"
  by (simp add: GetTodoByID_def DB_First_def BuildCondition_def Atoi_def digits_def digit_def
      two_statements_def failed_def milk_db_eq quiet_def)


subsection \<open>Plain path parameters\<close>

lemma plain_key: "BuildCondition s = PrimaryKey k \<Longrightarrow> plain s"
  by (simp add: plain_def)

lemma soft_delete_none:
  "\<forall>r\<in>set (table db). \<not> (live r \<and> cond r) \<Longrightarrow> soft_delete cond t db = (ok 0, db)"
  by (simp add: soft_delete_def filter_hit_empty [THEN iffD2] map_unhit)

lemma GetTodoByID_plain_store: "plain s \<Longrightarrow> snd (GetTodoByID eng db e s) = db"
  using DB_First_plain_store [of s eng db "err1 e" zero_Todo]
  by (auto simp: GetTodoByID_def split: prod.splits)

lemma UpdateTodo_plain_store:
  assumes "plain s" and "status (fst (UpdateTodo eng db e s rb)) \<noteq> 200"
  shows "snd (UpdateTodo eng db e s rb) = db"
proof -
  obtain result t db0 where f: "DB_First eng db (err1 e) zero_Todo s = (result, t, db0)"
    by (cases "DB_First eng db (err1 e) zero_Todo s") auto
  with DB_First_plain_store [OF assms(1), of eng db "err1 e" zero_Todo] have "db0 = db"
    by simp
  with f assms(2) show ?thesis
    by (auto simp: UpdateTodo_def split: prod.splits sum.splits if_splits)
qed

lemma DeleteTodo_plain_store:
  assumes "plain s" and "status (fst (DeleteTodo eng db e s)) \<noteq> 204"
  shows "snd (DeleteTodo eng db e s) = db"
proof (cases "err1 e")
  case True
  then show ?thesis by (simp add: DeleteTodo_fails)
next
  case up: False
  have soft: "snd (DeleteTodo eng db e s) = db"
    if d: "DB_Delete eng db (now e) (err1 e) s = soft_delete cond (now e) db" for cond
  proof (cases "\<forall>r\<in>set (table db). \<not> (live r \<and> cond r)")
    case True
    then show ?thesis
      by (simp add: DeleteTodo_def d soft_delete_none ok_def)
  next
    case False
    then have "fst (DeleteTodo eng db e s) = \<lparr>status = 204, body = None\<rparr>"
      by (simp only: DeleteTodo_soft [OF d] fst_conv if_False)
    with assms(2) show ?thesis
      by simp
  qed
  show ?thesis
  proof (cases "BuildCondition s")
    case (PrimaryKey k)
    with up show ?thesis by (intro soft) (simp add: DB_Delete_def)
  next
    case (Expr sql)
    with assms(1) obtain n where "digits sql = Some n"
      by (auto simp: plain_def)
    with Expr up show ?thesis by (intro soft) (simp add: DB_Delete_def)
  next
    case NoCondition
    with up show ?thesis by (simp add: DeleteTodo_def DB_Delete_def failed_def)
  qed
qed

subsection \<open>Stores that meet the primary key constraint\<close>

lemma keys_ok_iff:
  "keys_ok db \<longleftrightarrow>
     distinct (map ID (table db)) \<and> (\<forall>r\<in>set (table db). ID r \<noteq> 0 \<and> ID r \<le> max_rowid)"
  by (simp add: keys_ok_def list_all_iff)

lemma one_row_per_key:
  assumes "keys_ok db" and "r \<in> set (table db)" and "x \<in> set (table db)" and "ID x = ID r"
  shows "x = r"
proof -
  from assms(1) have "inj_on ID (set (table db))"
    by (simp add: keys_ok_iff distinct_map)
  with assms(2-4) show ?thesis
    by (auto dest: inj_onD)
qed

lemma first_row_unique:
  assumes "keys_ok db" and "r \<in> set (table db)" and "live r"
    and "ID dest = 0 \<or> ID dest = ID r"
  shows "first_row (\<lambda>x. int (ID x) = int (ID r)) dest db = Some r"
proof -
  from assms(2-4) have "first_row (\<lambda>x. int (ID x) = int (ID r)) dest db \<noteq> None"
    by (auto simp: first_row_None)
  then obtain x where x: "first_row (\<lambda>x. int (ID x) = int (ID r)) dest db = Some x"
    by blast
  from first_row_Some [OF x] have "x \<in> set (table db)" and "ID x = ID r"
    by simp_all
  with assms(1,2) have "x = r"
    by (rule_tac one_row_per_key)
  with x show ?thesis by simp
qed

lemma ID_assign: "ID (assign t u r) = (if ID u = 0 then ID r else ID u)"
  by (simp add: assign_def)

lemma live_assign: "DeletedAt u = None \<Longrightarrow> live (assign t u r) = live r"
  by (simp add: assign_def live_def)

lemma keys_ok_same_keys:
  assumes "keys_ok db" and "map ID rows = map ID (table db)"
  shows "keys_ok (db\<lparr>table := rows\<rparr>)"
proof -
  from assms(2) have "ID ` set rows = ID ` set (table db)"
    by (metis set_map)
  then have "\<forall>r\<in>set rows. ID r \<in> ID ` set (table db)"
    by blast
  with assms show ?thesis
    unfolding keys_ok_iff by auto
qed

lemma same_keys_map:
  "ID u = 0 \<or> ID u = k \<Longrightarrow>
   map ID (map (\<lambda>x. if live x \<and> ID x = k then assign t u x else x) xs) = map ID xs"
  by (auto simp: ID_assign)

lemma DB_Updates_same_key:
  assumes "keys_ok db" and "r \<in> set (table db)" and "ID u = 0 \<or> ID u = ID r"
  shows "DB_Updates db t False r u =
     (ok (length (filter (\<lambda>x. live x \<and> ID x = ID r) (table db))), assign t u r,
      db\<lparr>table := map (\<lambda>x. if live x \<and> ID x = ID r then assign t u x else x) (table db)\<rparr>)"
proof -
  define rows where "rows = map (\<lambda>x. if live x \<and> ID x = ID r then assign t u x else x) (table db)"
  have same: "map ID rows = map ID (table db)"
    unfolding rows_def using assms(3) by (rule same_keys_map)
  from assms(1,2) have nz: "ID r \<noteq> 0" and le: "ID r \<le> max_rowid"
    and d: "distinct (map ID (table db))"
    by (simp_all add: keys_ok_iff)
  have d': "distinct (map ID rows)"
    by (simp only: same d)
  from le assms(3) have "ID u = 0 \<or> \<not> max_rowid < ID u"
    by auto
  with d' have "\<not> (ID u \<noteq> 0 \<and> (max_rowid < ID u \<or> \<not> distinct (map ID rows)))"
    by auto
  with nz have "DB_Updates db t False r u =
     (ok (length (filter (\<lambda>x. live x \<and> ID x = ID r) (table db))), assign t u r,
      db\<lparr>table := rows\<rparr>)"
    unfolding rows_def by (auto simp add: DB_Updates_def Let_def)
  then show ?thesis
    unfolding rows_def .
qed


lemma max_rowid_uint: "k \<le> max_rowid \<Longrightarrow> k < 2 ^ 64"
  by (simp add: max_rowid_def)

lemma ReadJSON_own_id:
  assumes "j_id j = None \<or> j_id j = Some 0 \<or> j_id j = Some k" and "k \<le> max_rowid"
  shows "\<exists>u. ReadJSON (Object j) = Inr u \<and> (ID u = 0 \<or> ID u = k) \<and> DeletedAt u = None \<and>
           (\<forall>r. ID r = k \<longrightarrow> assign t u r = merged t j r)"
proof -
  let ?u = "\<lparr>ID = or_zero 0 (j_id j), CreatedAt = or_zero 0 (j_created_at j),
     UpdatedAt = or_zero 0 (j_updated_at j), DeletedAt = None, Title = or_zero [] (j_title j),
     Description = or_zero [] (j_description j), Completed = or_zero False (j_completed j)\<rparr>"
  from assms(1) have idu: "or_zero 0 (j_id j) = 0 \<or> or_zero 0 (j_id j) = k"
    by (auto simp: or_zero_def)
  with max_rowid_uint [OF assms(2)] have "\<not> 2 ^ 64 \<le> or_zero 0 (j_id j)"
    by auto
  then have rd: "ReadJSON (Object j) = Inr ?u"
    by (simp add: ReadJSON_def)
  have "assign t ?u r = merged t j r" if "ID r = k" for r
    using idu that
    by (cases r) (auto simp: assign_def merged_def or_zero_def split: option.splits)
  with rd idu show ?thesis
    by (intro exI [of _ ?u]) simp
qed

text \<open>
  Claim C1, as the handler has it. In a store that meets the primary key constraint, for an
  update request whose path parameter is the key of a live row, whose body decodes and gives
  no id (or 0, or the id of the row), and whose lookup and update statement do not fail: a
  following get-by-id of the same key answers 200 with the merged record, in which a title,
  description or creation time of the body replaces the stored one only when it is not the
  zero value of its type, completed is set only by true, every other field keeps its value,
  and updated_at is the clock of the update request. The response of the update itself is the
  same record when its second lookup does not fail.
\<close>

theorem UpdateTodo_merge:
  assumes "keys_ok db" and "r \<in> set (table db)" and "live r"
    and "BuildCondition s = PrimaryKey (int (ID r))"
    and "j_id j = None \<or> j_id j = Some 0 \<or> j_id j = Some (ID r)"
    and "\<not> err1 e" and "\<not> err2 e" and "\<not> err1 e'"
  shows "fst (GetTodoByID eng (snd (UpdateTodo eng db e s (Object j))) e' s) =
           \<lparr>status = 200, body = Some (MarshalTodo (merged (now e) j r))\<rparr> \<and>
         (\<not> err3 e \<longrightarrow> fst (UpdateTodo eng db e s (Object j)) =
           \<lparr>status = 200, body = Some (MarshalTodo (merged (now e) j r))\<rparr>) \<and>
         UpdatedAt (merged (now e) j r) = now e"
proof -
  from assms(1,2) have le: "ID r \<le> max_rowid"
    by (simp add: keys_ok_iff)
  from ReadJSON_own_id [OF assms(5) le, of "now e"] obtain u
    where rd: "ReadJSON (Object j) = Inr u" and idu: "ID u = 0 \<or> ID u = ID r"
      and du: "DeletedAt u = None" and mg: "assign (now e) u r = merged (now e) j r"
    by blast
  define rows where "rows = map (\<lambda>x. if live x \<and> ID x = ID r then assign (now e) u x else x) (table db)"
  define db1 where "db1 = db\<lparr>table := rows\<rparr>"
  have pl: "plain s"
    using assms(4) by (rule plain_key)
  have first: "DB_First eng db (err1 e) zero_Todo s = (ok 1, r, db)"
    using assms(6) first_row_unique [OF assms(1-3), of zero_Todo]
    by (simp add: DB_First_key [OF assms(4)] select_first_def ID_zero_Todo)
  have n: "Error (ok 1) = None"
    by (simp add: ok_def)
  have upd: "snd (snd (DB_Updates db (now e) (err2 e) r u)) = db1"
    using assms(7) DB_Updates_same_key [OF assms(1,2) idu, of "now e"]
    by (simp add: db1_def rows_def)
  have ok1: "keys_ok db1"
    unfolding db1_def rows_def
    using assms(1) same_keys_map [OF idu] by (rule keys_ok_same_keys)
  have mem: "assign (now e) u r \<in> set (table db1)"
    using assms(2,3) by (auto simp: db1_def rows_def)
  have lv: "live (assign (now e) u r)"
    using assms(3) du by (simp add: live_assign)
  have key: "ID (assign (now e) u r) = ID r"
    using idu by (auto simp: ID_assign)
  have row: "first_row (\<lambda>x. int (ID x) = int (ID r)) dest db1 = Some (assign (now e) u r)"
    if "ID dest = 0 \<or> ID dest = ID r" for dest
    using first_row_unique [OF ok1 mem lv, of dest] that by (simp add: key)
  have look: "DB_First eng db1 False dest s = (ok 1, assign (now e) u r, db1)"
    if "ID dest = 0 \<or> ID dest = ID r" for dest
    using row [OF that] by (simp add: DB_First_key [OF assms(4)] select_first_def)
  have whole: "UpdateTodo eng db e s (Object j) =
     (\<lparr>status = 200,
       body = Some (MarshalTodo (fst (snd (DB_First eng db1 (err3 e) (assign (now e) u r) s))))\<rparr>,
      snd (snd (DB_First eng db1 (err3 e) (assign (now e) u r) s)))"
    using UpdateTodo_found [OF first n rd] by (simp only: upd)
  have after: "snd (UpdateTodo eng db e s (Object j)) = db1"
    by (simp add: whole DB_First_plain_store [OF pl])
  have c1: "fst (GetTodoByID eng (snd (UpdateTodo eng db e s (Object j))) e' s) =
           \<lparr>status = 200, body = Some (MarshalTodo (merged (now e) j r))\<rparr>"
    using assms(8) look [of zero_Todo]
    by (simp add: after GetTodoByID_def ID_zero_Todo ok_def mg)
  have c2: "fst (UpdateTodo eng db e s (Object j)) =
           \<lparr>status = 200, body = Some (MarshalTodo (merged (now e) j r))\<rparr>" if "\<not> err3 e"
  proof -
    have "DB_First eng db1 False (assign (now e) u r) s = (ok 1, assign (now e) u r, db1)"
      by (rule look) (simp add: key)
    with that show ?thesis
      by (simp add: whole mg)
  qed
  have c3: "UpdatedAt (merged (now e) j r) = now e"
    by (simp add: merged_def)
  from c1 c2 c3 show ?thesis
    by blast
qed


theorem UpdateTodo_merge_witness:
  "keys_ok milk_db \<and> milk \<in> set (table milk_db) \<and> live milk \<and>
   BuildCondition ''1'' = PrimaryKey (int (ID milk)) \<and>
   j_id (no_members\<lparr>j_title := Some ''Buy bread''\<rparr>) = None \<and>
   \<not> err1 (quiet 20) \<and> \<not> err2 (quiet 20) \<and> \<not> err3 (quiet 20) \<and> \<not> err1 (quiet 30) \<and>
   fst (GetTodoByID no_sql
          (snd (UpdateTodo no_sql milk_db (quiet 20) ''1''
                  (Object (no_members\<lparr>j_title := Some ''Buy bread''\<rparr>))))
          (quiet 30) ''1'') =
     \<lparr>status = 200, body = Some (MarshalTodo (milk\<lparr>UpdatedAt := 20, Title := ''Buy bread''\<rparr>))\<rparr> \<and>
   fst (UpdateTodo no_sql milk_db (quiet 20) ''1''
          (Object (no_members\<lparr>j_title := Some ''Buy bread''\<rparr>))) =
     \<lparr>status = 200, body = Some (MarshalTodo (milk\<lparr>UpdatedAt := 20, Title := ''Buy bread''\<rparr>))\<rparr>"
proof -
  have a: "keys_ok milk_db"
    by (simp add: keys_ok_def milk_db_eq milk_def max_rowid_def)
  have b: "milk \<in> set (table milk_db)"
    by (simp add: milk_db_eq)
  have c: "live milk"
    by (simp add: live_def milk_def)
  have d: "BuildCondition ''1'' = PrimaryKey (int (ID milk))"
    by (simp add: one_id milk_def)
  have f: "j_id (no_members\<lparr>j_title := Some ''Buy bread''\<rparr>) = None"
    by (simp add: no_members_def)
  have q: "\<not> err1 (quiet t)" "\<not> err2 (quiet t)" "\<not> err3 (quiet t)" "now (quiet t) = t" for t
    by (simp_all add: quiet_def)
  have m: "merged 20 (no_members\<lparr>j_title := Some ''Buy bread''\<rparr>) milk =
      milk\<lparr>UpdatedAt := 20, Title := ''Buy bread''\<rparr>"
    by (simp add: merged_def no_members_def milk_def)
  note th = UpdateTodo_merge [where e = "quiet 20" and e' = "quiet 30" and eng = no_sql,
      OF a b c d disjI1 [OF f] q(1) q(2) q(1), unfolded q(4) m]
  have g: "fst (GetTodoByID no_sql
          (snd (UpdateTodo no_sql milk_db (quiet 20) ''1''
                  (Object (no_members\<lparr>j_title := Some ''Buy bread''\<rparr>))))
          (quiet 30) ''1'') =
     \<lparr>status = 200, body = Some (MarshalTodo (milk\<lparr>UpdatedAt := 20, Title := ''Buy bread''\<rparr>))\<rparr>"
    using th by blast
  have h: "fst (UpdateTodo no_sql milk_db (quiet 20) ''1''
          (Object (no_members\<lparr>j_title := Some ''Buy bread''\<rparr>))) =
     \<lparr>status = 200, body = Some (MarshalTodo (milk\<lparr>UpdatedAt := 20, Title := ''Buy bread''\<rparr>))\<rparr>"
    using th q(3) by blast
  from a b c d f q(1) q(2) q(3) q(1) g h show ?thesis
    by (intro conjI)
qed

lemma future_db_eq:
  "future_db = \<lparr>table = [\<lparr>ID = 1, CreatedAt = 10, UpdatedAt = 50, DeletedAt = None, Title = [],
     Description = [], Completed = False\<rparr>], sequence = 1\<rparr>"
  by (simp add: future_db_def model_defs)

text \<open>
  Against claim C1 as it is stated. The record of id 1 is completed; an update with the body
  \<^verbatim>\<open>{"completed": false}\<close> at clock 20 leaves it completed, as the following get-by-id
  shows: a supplied field did not replace the stored value. And a record created with an
  update time of 50 in its body has, after an update at clock 20, the update time 20: it did
  not increase.
\<close>

theorem UpdateTodo_merge_counterexample:
  "fst (GetTodoByID no_sql
          (snd (UpdateTodo no_sql milk_db (quiet 20) ''1''
                  (Object (no_members\<lparr>j_completed := Some False\<rparr>))))
          (quiet 30) ''1'') =
     \<lparr>status = 200,
      body = Some (JObj [(''id'', JNum 1), (''created_at'', JTime 10), (''updated_at'', JTime 20),
                         (''title'', JStr ''Buy milk''), (''description'', JStr []),
                         (''completed'', JBool True)])\<rparr> \<and>
   fst (GetTodoByID no_sql future_db (quiet 15) ''1'') =
     \<lparr>status = 200,
      body = Some (JObj [(''id'', JNum 1), (''created_at'', JTime 10), (''updated_at'', JTime 50),
                         (''title'', JStr []), (''description'', JStr []),
                         (''completed'', JBool False)])\<rparr> \<and>
   fst (GetTodoByID no_sql
          (snd (UpdateTodo no_sql future_db (quiet 20) ''1'' (Object no_members)))
          (quiet 30) ''1'') =
     \<lparr>status = 200,
      body = Some (JObj [(''id'', JNum 1), (''created_at'', JTime 10), (''updated_at'', JTime 20),
                         (''title'', JStr []), (''description'', JStr []),
                         (''completed'', JBool False)])\<rparr>"
proof -
  have a: "fst (GetTodoByID no_sql
          (snd (UpdateTodo no_sql milk_db (quiet 20) ''1''
                  (Object (no_members\<lparr>j_completed := Some False\<rparr>))))
          (quiet 30) ''1'') =
     \<lparr>status = 200,
      body = Some (JObj [(''id'', JNum 1), (''created_at'', JTime 10), (''updated_at'', JTime 20),
                         (''title'', JStr ''Buy milk''), (''description'', JStr []),
                         (''completed'', JBool True)])\<rparr>"
    by (simp add: milk_db_eq milk_def model_defs)
  have b: "fst (GetTodoByID no_sql future_db (quiet 15) ''1'') =
     \<lparr>status = 200,
      body = Some (JObj [(''id'', JNum 1), (''created_at'', JTime 10), (''updated_at'', JTime 50),
                         (''title'', JStr []), (''description'', JStr []),
                         (''completed'', JBool False)])\<rparr>"
    by (simp add: future_db_eq model_defs)
  have c: "fst (GetTodoByID no_sql
          (snd (UpdateTodo no_sql future_db (quiet 20) ''1'' (Object no_members)))
          (quiet 30) ''1'') =
     \<lparr>status = 200,
      body = Some (JObj [(''id'', JNum 1), (''created_at'', JTime 10), (''updated_at'', JTime 20),
                         (''title'', JStr []), (''description'', JStr []),
                         (''completed'', JBool False)])\<rparr>"
    by (simp add: future_db_eq model_defs)
  from a b c show ?thesis
    by (intro conjI)
qed

subsection \<open>Soft-deleted rows\<close>

lemma soft_deleted_hidden:
  assumes "keys_ok db" and "r \<in> set (table db)" and "\<not> live r" and "\<not> err1 e"
    and "BuildCondition s = PrimaryKey (int (ID r))"
  shows "fst (GetTodos db e) =
           \<lparr>status = 200, body = Some (JArr (map MarshalTodo (sort_key ID (filter live (table db)))))\<rparr>"
    and "r \<notin> set (sort_key ID (filter live (table db)))"
    and "GetTodoByID eng db e s = (StopWithJSON 404 (iris_Map ''Todo item not found.''), db)"
    and "UpdateTodo eng db e s rb = (StopWithJSON 404 (iris_Map ''Todo item not found.''), db)"
    and "DeleteTodo eng db e s = (StopWithJSON 404 (iris_Map ''Todo item not found.''), db)"
proof -
  have none: "\<forall>x\<in>set (table db). \<not> (live x \<and> ID x = ID r)"
    using one_row_per_key [OF assms(1,2)] assms(3) by blast
  show "fst (GetTodos db e) =
           \<lparr>status = 200, body = Some (JArr (map MarshalTodo (sort_key ID (filter live (table db)))))\<rparr>"
    using assms(4) by (rule GetTodos_works)
  show "r \<notin> set (sort_key ID (filter live (table db)))"
    using assms(3) by simp
  show "GetTodoByID eng db e s = (StopWithJSON 404 (iris_Map ''Todo item not found.''), db)"
    using GetTodoByID_by_key(1) [OF assms(5,4)] none by blast
  show "UpdateTodo eng db e s rb = (StopWithJSON 404 (iris_Map ''Todo item not found.''), db)"
    using UpdateTodo_by_key(1) [OF assms(5,4)] none by blast
  have "map (\<lambda>x. if live x \<and> ID x = ID r then x\<lparr>DeletedAt := Some (now e)\<rparr> else x) (table db) =
      table db"
    using none by (intro map_unhit) (simp add: filter_hit_empty)
  with none show "DeleteTodo eng db e s = (StopWithJSON 404 (iris_Map ''Todo item not found.''), db)"
    by (simp add: DeleteTodo_by_key [OF assms(5,4)])
qed

text \<open>
  Claim C2 fails on the handler, for a path parameter that the ORM takes for condition text.
  The store holds one record, with id 1, soft-deleted. A get-by-id request whose path
  parameter is a condition that ends in a comment is answered with 200 and that record, with
  an engine that reads the comment. The claim says that the record never appears in the
  result of get-by-id.
\<close>

theorem GetTodoByID_shows_deleted:
  "milk_gone = \<lparr>table = [milk\<lparr>DeletedAt := Some 20\<rparr>], sequence = 1\<rparr> \<and>
   GetTodoByID comment_text milk_gone (quiet 30) ''1 --'' =
     (\<lparr>status = 200, body = Some (MarshalTodo (milk\<lparr>DeletedAt := Some 20\<rparr>))\<rparr>, milk_gone)"
  by (simp add: milk_gone_eq GetTodoByID_def DB_First_def BuildCondition_def Atoi_def digits_def
      digit_def comment_text_def ok_def quiet_def)

end
